theory Spec2Isabelle
  imports Complex_Main
begin

section \<open>Data model of the Pionex futures grid bot\<close>

text \<open>
  The bot is the class \<open>PionexFuturesGridBot\<close> of \<open>pionex_futures_grid_bot.py\<close>.
  Python floats are modelled as real numbers, so rounding is left out; a float division
  by zero raises \<open>ZeroDivisionError\<close> in Python and is an error value here.
  Timestamps are integers. A position and a trade are the dictionaries built by
  \<open>execute_trade\<close> and \<open>close_position\<close>; their keys become record fields with the
  prefixes \<open>pos_\<close> and \<open>tr_\<close>.
\<close>

datatype error = ZeroDivisionError | AttributeError | NameError

record config =
  initial_balance :: real
  leverage :: real
  grid_lower_price :: real
  grid_upper_price :: real
  grid_count :: int
  investment_amount :: real
  fee_rate :: real
  funding_rate :: real
  liquidation_buffer :: real
  stop_loss_pct :: real
  take_profit_pct :: real

record position =
  pos_id :: nat
  pos_side :: string
  pos_entry_price :: real
  pos_size :: real
  pos_timestamp :: int
  pos_leverage :: real
  pos_buy_fee :: real
  pos_trailing_stop :: real
  pos_trailing_high :: real

record trade =
  tr_timestamp :: int
  tr_side :: string
  tr_price :: real
  tr_size :: real
  tr_fee :: real
  tr_pnl :: real
  tr_leverage :: real

text \<open>
  The attributes of the bot that the trading code reads or writes. The constructor
  assigns every one of them except two: \<open>grid_prices\<close>, which \<open>run_backtest\<close> and
  \<open>start_live_trading\<close> assign before their loops start, and \<open>trailing_stop_pct\<close>,
  which \<open>execute_trade\<close> reads and no code of the repository assigns. Both are
  therefore optional in the model: \<open>None\<close> is the attribute missing, as it is on every
  bot the constructor returns, and reading it then raises \<open>AttributeError\<close>.
\<close>

record bot =
  config :: config
  positions :: "position list"
  trades :: "trade list"
  total_fees :: real
  funding_fees :: real
  liquidated_positions :: nat
  start_balance :: real
  current_balance :: real
  grid_prices :: "real list option"
  slippage_rate :: real
  spread_rate :: real
  order_failure_rate :: real
  trailing_stop_pct :: "real option"

definition init :: "config \<Rightarrow> bot" where
  "init cfg =
     \<lparr>config = cfg, positions = [], trades = [], total_fees = 0, funding_fees = 0,
      liquidated_positions = 0, start_balance = initial_balance cfg,
      current_balance = initial_balance cfg, grid_prices = None,
      slippage_rate = 0.001, spread_rate = 0.002, order_failure_rate = 0.05,
      trailing_stop_pct = None\<rparr>"

section \<open>Grid levels\<close>

text \<open>
  \<open>auto_set_grid_range\<close> reads the market (the last close and the standard deviation of
  the returns, from the loaded data or from the exchange) and overwrites both bounds of
  the configuration. What it reads is a parameter of the model: \<open>Observed p v\<close> is the
  \<open>try\<close> block running to its end with current price \<open>p\<close> and volatility \<open>v\<close>,
  \<open>Unavailable p\<close> is the \<open>except\<close> branch with the fallback price \<open>p\<close>.
\<close>

datatype market = Observed real real | Unavailable real

fun auto_set_grid_range :: "config \<Rightarrow> market \<Rightarrow> config" where
  "auto_set_grid_range cfg (Observed current_price volatility) =
     (let grid_range_pct = max 0.05 (min 0.20 (volatility * 10));
          grid_range = current_price * grid_range_pct
      in cfg\<lparr>grid_lower_price := current_price - grid_range / 2,
              grid_upper_price := current_price + grid_range / 2\<rparr>)"
| "auto_set_grid_range cfg (Unavailable current_price) =
     cfg\<lparr>grid_lower_price := current_price * 0.95,
         grid_upper_price := current_price * 1.05\<rparr>"

text \<open>
  \<open>calculate_grid_prices\<close> first calls \<open>auto_set_grid_range\<close>, whatever the configured
  bounds are, then spaces \<open>grid_count\<close> levels between the bounds it reads back. The
  configuration it changed is returned with the levels. \<open>range(grid_count)\<close> is empty
  for a count below one.
\<close>

definition calculate_grid_prices :: "config \<Rightarrow> market \<Rightarrow> (error + real list) \<times> config" where
  "calculate_grid_prices cfg0 mkt =
     (let cfg = auto_set_grid_range cfg0 mkt;
          lower_price = grid_lower_price cfg;
          upper_price = grid_upper_price cfg
      in if grid_count cfg - 1 = 0 then (Inl ZeroDivisionError, cfg)
         else
           (let grid_spacing = (upper_price - lower_price) / real_of_int (grid_count cfg - 1)
            in (Inr (map (\<lambda>i. lower_price + real i * grid_spacing) [0..<nat (grid_count cfg)]),
                cfg)))"

section \<open>Sizing and liquidation formulas\<close>

definition calculate_position_size :: "config \<Rightarrow> real \<Rightarrow> error + real" where
  "calculate_position_size cfg price =
     (if price = 0 then Inl ZeroDivisionError
      else Inr ((investment_amount cfg * leverage cfg) / price))"

definition calculate_liquidation_price :: "real \<Rightarrow> real \<Rightarrow> bool \<Rightarrow> real \<Rightarrow> error + real" where
  "calculate_liquidation_price entry_price position_size is_long lev =
     (if lev = 0 then Inl ZeroDivisionError
      else if is_long then Inr (entry_price * (1 - 1 / lev))
      else Inr (entry_price * (1 + 1 / lev)))"

text \<open>The profit or loss that the risk checks compute for a position at a price.\<close>

definition position_pnl :: "position \<Rightarrow> real \<Rightarrow> real" where
  "position_pnl p current_price =
     (if pos_side p = ''long''
      then (current_price - pos_entry_price p) * pos_size p * pos_leverage p
      else (pos_entry_price p - current_price) * pos_size p * pos_leverage p)"

definition check_liquidation_risk :: "config \<Rightarrow> position \<Rightarrow> real \<Rightarrow> error + bool" where
  "check_liquidation_risk cfg p current_price =
     (let pnl = position_pnl p current_price;
          margin = pos_size p
      in if margin = 0 then Inl ZeroDivisionError
         else Inr ((margin + pnl) / margin < liquidation_buffer cfg))"

section \<open>Execution simulator\<close>

text \<open>
  \<open>apply_slippage_and_spread\<close> draws one number from \<open>random.uniform(0.5, 1.5)\<close>;
  the draw is the parameter \<open>u\<close>. \<open>simulate_order_execution\<close> is declared to return
  an optional price and returns the adjusted price on every path; it reads neither its
  size argument nor \<open>order_failure_rate\<close>.
\<close>

definition apply_slippage_and_spread :: "bot \<Rightarrow> real \<Rightarrow> bool \<Rightarrow> real \<Rightarrow> real" where
  "apply_slippage_and_spread b price is_buy u =
     (let slippage = price * slippage_rate b * u;
          spread = price * spread_rate b
      in if is_buy then price + slippage + spread else price - slippage - spread)"

definition simulate_order_execution :: "bot \<Rightarrow> real \<Rightarrow> bool \<Rightarrow> real \<Rightarrow> real \<Rightarrow> real option" where
  "simulate_order_execution b price is_buy sz u =
     Some (apply_slippage_and_spread b price is_buy u)"

section \<open>Position ledger\<close>

text \<open>
  A call that changes the bot returns the bot it leaves behind together with its result,
  which is \<open>Inl\<close> of the exception when the call raises: the attributes assigned before
  the exception stay assigned.

  \<open>execute_trade_filled\<close> is the body of \<open>execute_trade\<close> from the test of the
  simulator's result on. The dictionary of the position reads \<open>self.trailing_stop_pct\<close>
  in both branches of its conditional, before anything is assigned. After the position
  is appended and the fee added, the notification reads \<open>self.grid_prices\<close> and then
  divides by the executed price.
\<close>

definition execute_trade_filled ::
  "bot \<Rightarrow> string \<Rightarrow> int \<Rightarrow> real \<Rightarrow> real \<Rightarrow> real option \<Rightarrow> (error + bool) \<times> bot" where
  "execute_trade_filled b side ts lev position_size fill =
     (case fill of
        None \<Rightarrow> (Inr False, b)
      | Some executed_price \<Rightarrow>
          (case trailing_stop_pct b of
             None \<Rightarrow> (Inl AttributeError, b)
           | Some tsp \<Rightarrow>
               (let p = \<lparr>pos_id = length (positions b) + 1,
                         pos_side = side,
                         pos_entry_price = executed_price,
                         pos_size = position_size,
                         pos_timestamp = ts,
                         pos_leverage = lev,
                         pos_buy_fee = position_size * executed_price * fee_rate (config b),
                         pos_trailing_stop =
                           (if side = ''long'' then executed_price * (1 - tsp)
                            else executed_price * (1 + tsp)),
                         pos_trailing_high = executed_price\<rparr>;
                    fee = position_size * executed_price * fee_rate (config b);
                    b' = b\<lparr>positions := positions b @ [p],
                           total_fees := total_fees b + fee\<rparr>
                in case grid_prices b of
                     None \<Rightarrow> (Inl AttributeError, b')
                   | Some levels \<Rightarrow>
                       if executed_price = 0 then (Inl ZeroDivisionError, b')
                       else (Inr True, b'))))"

definition execute_trade ::
  "bot \<Rightarrow> real \<Rightarrow> string \<Rightarrow> int \<Rightarrow> real option \<Rightarrow> real \<Rightarrow> (error + bool) \<times> bot" where
  "execute_trade b price side ts leverage_arg u =
     (let lev = (case leverage_arg of None \<Rightarrow> leverage (config b) | Some l \<Rightarrow> l)
      in case calculate_position_size (config b) price of
           Inl e \<Rightarrow> (Inl e, b)
         | Inr position_size \<Rightarrow>
             if position_size \<le> 0 then (Inr False, b)
             else execute_trade_filled b side ts lev position_size
                    (simulate_order_execution b price (side = ''buy'') position_size u))"

text \<open>
  \<open>close_position_filled\<close> is the body of \<open>close_position\<close> from the test of the
  simulator's result on. It adds the sell fee to the fee total, divides by the entry
  value, books the profit, appends the trade and then formats the notification, whose
  text reads the names \<open>grid_sell_pnl\<close>, \<open>grid_sell_pct\<close>, \<open>tp_pnl\<close> and \<open>tp_pct\<close>.
  None of them is bound in the function or the module, so formatting raises
  \<open>NameError\<close> and the \<open>return pnl\<close> after it is never reached. The function leaves
  the list of open positions alone: removing the position is the caller's next statement.
\<close>

definition close_position_filled ::
  "bot \<Rightarrow> position \<Rightarrow> int \<Rightarrow> real option \<Rightarrow> (error + real) \<times> bot" where
  "close_position_filled b p ts fill =
     (case fill of
        None \<Rightarrow> (Inr 0, b)
      | Some executed_price \<Rightarrow>
          (let pnl = (if pos_side p = ''long''
                      then (executed_price - pos_entry_price p) * pos_size p * pos_leverage p
                      else (pos_entry_price p - executed_price) * pos_size p * pos_leverage p);
               sell_fee = pos_size p * executed_price * fee_rate (config b);
               b1 = b\<lparr>total_fees := total_fees b + sell_fee\<rparr>;
               entry_value = pos_entry_price p * pos_size p
           in if entry_value = 0 then (Inl ZeroDivisionError, b1)
              else
                (let b2 = b1\<lparr>current_balance := current_balance b1 + (pnl - sell_fee)\<rparr>;
                     t = \<lparr>tr_timestamp = ts,
                          tr_side = (if pos_side p = ''long'' then ''sell'' else ''buy''),
                          tr_price = executed_price,
                          tr_size = pos_size p,
                          tr_fee = sell_fee,
                          tr_pnl = pnl,
                          tr_leverage = pos_leverage p\<rparr>;
                     b3 = b2\<lparr>trades := trades b2 @ [t]\<rparr>
                 in (Inl NameError, b3))))"

definition close_position ::
  "bot \<Rightarrow> position \<Rightarrow> real \<Rightarrow> int \<Rightarrow> real \<Rightarrow> (error + real) \<times> bot" where
  "close_position b p price ts u =
     close_position_filled b p ts
       (simulate_order_execution b price (pos_side p = ''sell'') (pos_size p) u)"

definition apply_funding_fees :: "bot \<Rightarrow> int \<Rightarrow> bot" where
  "apply_funding_fees b ts =
     (if length (positions b) > 0 then
        (let total_position_value =
               sum_list (map (\<lambda>pos. pos_size pos * pos_entry_price pos) (positions b));
             funding_fee = total_position_value * funding_rate (config b)
         in b\<lparr>funding_fees := funding_fees b + funding_fee,
               total_fees := total_fees b + funding_fee,
               current_balance := current_balance b - funding_fee\<rparr>)
      else b)"

section \<open>Backtest loop\<close>

text \<open>
  One bar of \<open>run_backtest\<close> is its index in the data frame, its close and its
  timestamp. The random draws of a run are a function \<open>U\<close> from the number of draws
  made so far to the next draw; the loops return the number of draws they made. An
  exception leaves \<open>run_backtest\<close>, which catches none, so each part of the loop
  returns \<open>Some\<close> of the exception with the bot as it was when the exception was raised.

  The liquidation pass counts and collects the positions at risk, then removes them
  with \<open>list.remove\<close>, which deletes the first element equal to its argument.
\<close>

fun check_liquidations ::
  "bot \<Rightarrow> real \<Rightarrow> position list \<Rightarrow> position list \<Rightarrow> (error + position list) \<times> bot" where
  "check_liquidations b current_price positions_to_remove [] = (Inr positions_to_remove, b)"
| "check_liquidations b current_price positions_to_remove (p # ps) =
     (case check_liquidation_risk (config b) p current_price of
        Inl e \<Rightarrow> (Inl e, b)
      | Inr at_risk \<Rightarrow>
          if at_risk
          then check_liquidations (b\<lparr>liquidated_positions := liquidated_positions b + 1\<rparr>)
                 current_price (positions_to_remove @ [p]) ps
          else check_liquidations b current_price positions_to_remove ps)"

definition remove_all :: "position list \<Rightarrow> bot \<Rightarrow> bot" where
  "remove_all positions_to_remove b =
     b\<lparr>positions := foldl (\<lambda>ps p. remove1 p ps) (positions b) positions_to_remove\<rparr>"

text \<open>
  The grid pass of one bar. A level buys when the close is at or below it and no open
  position has the level as its entry price, provided the balance exceeds the
  investment; otherwise, when the close is at or above the level, it closes the first
  open position whose entry price is the level and whose side is \<open>long\<close>, and removes it.
\<close>

fun grid_trading ::
  "(nat \<Rightarrow> real) \<Rightarrow> nat \<Rightarrow> bot \<Rightarrow> real \<Rightarrow> int \<Rightarrow> real list \<Rightarrow> error option \<times> nat \<times> bot" where
  "grid_trading U k b current_price ts [] = (None, k, b)"
| "grid_trading U k b current_price ts (grid_price # rest) =
     (if current_price \<le> grid_price
         \<and> length (filter (\<lambda>p. pos_entry_price p = grid_price) (positions b)) = 0
      then
        (if current_balance b > investment_amount (config b)
         then (case execute_trade b grid_price ''buy'' ts None (U k) of
                 (Inl e, b') \<Rightarrow> (Some e, k + 1, b')
               | (Inr ok, b') \<Rightarrow> grid_trading U (k + 1) b' current_price ts rest)
         else grid_trading U k b current_price ts rest)
      else if current_price \<ge> grid_price
      then
        (case find (\<lambda>p. pos_entry_price p = grid_price \<and> pos_side p = ''long'') (positions b) of
           None \<Rightarrow> grid_trading U k b current_price ts rest
         | Some p \<Rightarrow>
             (case close_position b p grid_price ts (U k) of
                (Inl e, b') \<Rightarrow> (Some e, k + 1, b')
              | (Inr pnl, b') \<Rightarrow>
                  grid_trading U (k + 1) (b'\<lparr>positions := remove1 p (positions b')\<rparr>)
                    current_price ts rest))
      else grid_trading U k b current_price ts rest)"

definition backtest_bar ::
  "(nat \<Rightarrow> real) \<Rightarrow> nat \<Rightarrow> bot \<Rightarrow> int \<times> real \<times> int \<Rightarrow> error option \<times> nat \<times> bot" where
  "backtest_bar U k b row =
     (case row of (i, current_price, ts) \<Rightarrow>
        (let b1 = (if i mod 480 = 0 then apply_funding_fees b ts else b)
         in case check_liquidations b1 current_price [] (positions b1) of
              (Inl e, b2) \<Rightarrow> (Some e, k, b2)
            | (Inr positions_to_remove, b2) \<Rightarrow>
                (case grid_prices b2 of
                   None \<Rightarrow> (Some AttributeError, k, remove_all positions_to_remove b2)
                 | Some levels \<Rightarrow>
                     grid_trading U k (remove_all positions_to_remove b2) current_price ts
                       levels)))"

text \<open>
  The bars in order. The loop also leaves when its time budget of sixty seconds is
  spent, so what it has run at any moment is this function on a prefix of the data.
  The progress report of the loop changes no attribute and is left out; so are the
  forced closes and the metrics after the loop.
\<close>

fun backtest_bars ::
  "(nat \<Rightarrow> real) \<Rightarrow> nat \<Rightarrow> bot \<Rightarrow> (int \<times> real \<times> int) list \<Rightarrow> error option \<times> nat \<times> bot" where
  "backtest_bars U k b [] = (None, k, b)"
| "backtest_bars U k b (row # rows) =
     (case backtest_bar U k b row of
        (Some e, k', b') \<Rightarrow> (Some e, k', b')
      | (None, k', b') \<Rightarrow> backtest_bars U k' b' rows)"

section \<open>Live loop\<close>

text \<open>
  The two edge tests of \<open>live_trading_loop\<close>, which the source writes as chained
  comparisons on the price of the previous cycle, the level and the current price.
\<close>

definition crossed_up :: "real \<Rightarrow> real \<Rightarrow> real \<Rightarrow> bool" where
  "crossed_up last_price grid_price price = (last_price < grid_price \<and> grid_price \<le> price)"

definition crossed_down :: "real \<Rightarrow> real \<Rightarrow> real \<Rightarrow> bool" where
  "crossed_down last_price grid_price price = (last_price > grid_price \<and> grid_price \<ge> price)"

definition has_long :: "bot \<Rightarrow> bool" where
  "has_long b = list_ex (\<lambda>p. pos_side p = ''long'') (positions b)"

definition has_short :: "bot \<Rightarrow> bool" where
  "has_short b = list_ex (\<lambda>p. pos_side p = ''short'') (positions b)"

text \<open>
  The scan of the levels in one cycle that has a previous price. Its result is the flag
  \<open>trade_executed\<close>, or the exception that left the scan. The buy passes the side
  \<open>buy\<close> to \<open>execute_trade\<close> and sets the flag whatever \<open>execute_trade\<close> returns.
\<close>

fun live_grid_scan ::
  "bot \<Rightarrow> real \<Rightarrow> real \<Rightarrow> int \<Rightarrow> real \<Rightarrow> real list \<Rightarrow> (error + bool) \<times> bot" where
  "live_grid_scan b last_price price ts u [] = (Inr False, b)"
| "live_grid_scan b last_price price ts u (grid_price # rest) =
     (if crossed_up last_price grid_price price \<and> \<not> has_long b
      then (case execute_trade b grid_price ''buy'' ts None u of
              (Inl e, b') \<Rightarrow> (Inl e, b')
            | (Inr ok, b') \<Rightarrow> (Inr True, b'))
      else if crossed_down last_price grid_price price \<and> \<not> has_short b
      then (case find (\<lambda>p. pos_side p = ''long'') (positions b) of
              None \<Rightarrow> live_grid_scan b last_price price ts u rest
            | Some p \<Rightarrow>
                (case close_position b p grid_price ts u of
                   (Inl e, b') \<Rightarrow> (Inl e, b')
                 | (Inr pnl, b') \<Rightarrow> (Inr True, b'\<lparr>positions := remove1 p (positions b')\<rparr>)))
      else live_grid_scan b last_price price ts u rest)"

text \<open>
  Whether a level acts in a cycle: it is crossed upwards while no open position has the
  side \<open>long\<close>, or it is crossed downwards while no open position has the side
  \<open>short\<close> and one has the side \<open>long\<close>. These are the two conditions under which
  the scan calls \<open>execute_trade\<close> or \<open>close_position\<close>.
\<close>

definition level_acts :: "bot \<Rightarrow> real \<Rightarrow> real \<Rightarrow> real \<Rightarrow> bool" where
  "level_acts b last_price price grid_price =
     (if crossed_up last_price grid_price price then \<not> has_long b
      else crossed_down last_price grid_price price \<and> \<not> has_short b \<and> has_long b)"

text \<open>
  One cycle: the fetched price (\<open>None\<close> when the fetch failed), the timestamp and the
  draw. The cycle reads \<open>self.grid_prices\<close> for its log line before the scan. The loop
  catches every exception of a cycle, logs it and goes on; the assignment of
  \<open>last_price\<close> comes after the scan, so a cycle that raised keeps the previous price
  of the cycle before.
\<close>

definition live_cycle ::
  "real option \<times> bot \<Rightarrow> real option \<times> int \<times> real \<Rightarrow> real option \<times> bot" where
  "live_cycle st input =
     (case (st, input) of ((last_price, b), (fetched, ts, u)) \<Rightarrow>
        (case fetched of
           None \<Rightarrow> (last_price, b)
         | Some price \<Rightarrow>
             (case grid_prices b of
                None \<Rightarrow> (last_price, b)
              | Some levels \<Rightarrow>
                  (case last_price of
                     None \<Rightarrow> (Some price, b)
                   | Some lp \<Rightarrow>
                       (case live_grid_scan b lp price ts u levels of
                          (Inl e, b') \<Rightarrow> (last_price, b')
                        | (Inr trade_executed, b') \<Rightarrow> (Some price, b'))))))"

definition live_trading_loop :: "bot \<Rightarrow> (real option \<times> int \<times> real) list \<Rightarrow> real option \<times> bot" where
  "live_trading_loop b inputs = foldl live_cycle (None, b) inputs"

section \<open>Ledger operations and the balance\<close>

text \<open>
  The calls that change the ledger, in any order: \<open>execute_trade\<close>, \<open>close_position\<close>,
  \<open>apply_funding_fees\<close>, and the \<open>positions.remove\<close> that the loops run after a close
  or a liquidation. \<open>apply_ledger_op\<close> is the bot after the call, whether the call
  returned or raised.
\<close>

datatype ledger_op =
    Open real string int "real option" real
  | Close position real int real
  | Funding int
  | Remove position

fun apply_ledger_op :: "bot \<Rightarrow> ledger_op \<Rightarrow> bot" where
  "apply_ledger_op b (Open price side ts leverage_arg u) =
     snd (execute_trade b price side ts leverage_arg u)"
| "apply_ledger_op b (Close p price ts u) = snd (close_position b p price ts u)"
| "apply_ledger_op b (Funding ts) = apply_funding_fees b ts"
| "apply_ledger_op b (Remove p) = b\<lparr>positions := remove1 p (positions b)\<rparr>"

definition realized_pnl :: "bot \<Rightarrow> real" where
  "realized_pnl b = sum_list (map tr_pnl (trades b))"

definition sell_fees :: "bot \<Rightarrow> real" where
  "sell_fees b = sum_list (map tr_fee (trades b))"

text \<open>
  The balance equation with every accumulated fee, as \<open>total_fees\<close> accumulates them
  (buy fees, sell fees and funding fees), within the tolerance; and the equation with
  the sell fees of the recorded trades and the funding fees only.
\<close>

definition balance_less_all_fees :: "bot \<Rightarrow> bool" where
  "balance_less_all_fees b =
     (\<bar>current_balance b - (start_balance b + realized_pnl b - total_fees b)\<bar> \<le> 1 / 1000000)"

definition balance_less_booked_fees :: "bot \<Rightarrow> bool" where
  "balance_less_booked_fees b =
     (current_balance b = start_balance b + realized_pnl b - sell_fees b - funding_fees b)"

section \<open>Example inputs\<close>

text \<open>
  The default configuration written by \<open>load_config\<close>, with the numeric bounds and the
  count of the grid example; a bot on which \<open>trailing_stop_pct\<close> has been assigned
  from outside and \<open>grid_prices\<close> by the start of a run; the position that
  \<open>execute_trade\<close> builds on that bot at the level 100 with the draw 1, under a given
  side; and a position with the margin and the pnl of the liquidation example.
\<close>

definition example_config :: config where
  "example_config =
     \<lparr>initial_balance = 10000, leverage = 3, grid_lower_price = 90, grid_upper_price = 110,
      grid_count = 5, investment_amount = 1000, fee_rate = 0.0004, funding_rate = 0.0001,
      liquidation_buffer = 0.1, stop_loss_pct = 0.05, take_profit_pct = 0.10\<rparr>"

definition example_grid :: "real list" where
  "example_grid = [90, 95, 100, 105, 110]"

definition assigned_bot :: bot where
  "assigned_bot =
     (init example_config)\<lparr>grid_prices := Some example_grid, trailing_stop_pct := Some 0.02\<rparr>"

definition example_position :: "string \<Rightarrow> position" where
  "example_position side =
     \<lparr>pos_id = 1, pos_side = side, pos_entry_price = 100.3, pos_size = 30, pos_timestamp = 0,
      pos_leverage = 3, pos_buy_fee = 1.2036,
      pos_trailing_stop = (if side = ''long'' then 98.294 else 102.306),
      pos_trailing_high = 100.3\<rparr>"

definition margin_example :: position where
  "margin_example =
     \<lparr>pos_id = 1, pos_side = ''long'', pos_entry_price = 1, pos_size = 100, pos_timestamp = 0,
      pos_leverage = 1, pos_buy_fee = 0.04, pos_trailing_stop = 0.98, pos_trailing_high = 1\<rparr>"

section \<open>The basic liquidation check\<close>

text \<open>
  C8. For a position of non-zero size, \<open>check_liquidation_risk\<close> returns whether
  \<open>(margin + pnl) / margin < liquidation_buffer\<close>, where the margin is the size of the
  position and the pnl is \<open>(current - entry) * size * leverage\<close> for a long and
  \<open>(entry - current) * size * leverage\<close> for a short. With a margin of 100, a pnl of
  -95 and a buffer of 0.1 the ratio is 0.05 and the position is liquidated.
\<close>

theorem check_liquidation_risk_formula:
  assumes "pos_size p \<noteq> 0"
  shows "(pos_side p = ''long'' \<longrightarrow>
            check_liquidation_risk cfg p cur =
              Inr ((pos_size p + (cur - pos_entry_price p) * pos_size p * pos_leverage p)
                     / pos_size p < liquidation_buffer cfg))
       \<and> (pos_side p = ''short'' \<longrightarrow>
            check_liquidation_risk cfg p cur =
              Inr ((pos_size p + (pos_entry_price p - cur) * pos_size p * pos_leverage p)
                     / pos_size p < liquidation_buffer cfg))
       \<and> (pos_size p = 100 \<and> position_pnl p cur = - 95 \<and> liquidation_buffer cfg = 0.1 \<longrightarrow>
            (pos_size p + position_pnl p cur) / pos_size p = 0.05
            \<and> check_liquidation_risk cfg p cur = Inr True)"
  using assms by (simp add: check_liquidation_risk_def position_pnl_def Let_def)

theorem check_liquidation_risk_formula_witness:
  "pos_size margin_example \<noteq> 0 \<and> pos_side margin_example = ''long''
   \<and> position_pnl margin_example 0.05 = - 95
   \<and> check_liquidation_risk example_config margin_example 0.05 = Inr True"
  using check_liquidation_risk_formula [of margin_example example_config "0.05"]
  by (simp add: margin_example_def example_config_def position_pnl_def)

section \<open>Divisions without a guard\<close>

text \<open>
  C9. The three divisions that the claim names have no guard. A configuration with
  \<open>grid_count = 1\<close> makes \<open>calculate_grid_prices\<close> raise \<open>ZeroDivisionError\<close>, a
  leverage of zero makes \<open>calculate_liquidation_price\<close> raise it, and a position of
  size zero makes \<open>check_liquidation_risk\<close> raise it.
\<close>

theorem unguarded_divisions:
  "fst (calculate_grid_prices (example_config\<lparr>grid_count := 1\<rparr>) (Observed 100 0.02))
     = Inl ZeroDivisionError
   \<and> calculate_liquidation_price 100 30 True 0 = Inl ZeroDivisionError
   \<and> check_liquidation_risk example_config ((example_position ''buy'')\<lparr>pos_size := 0\<rparr>) 100
     = Inl ZeroDivisionError"
  by (simp add: calculate_grid_prices_def calculate_liquidation_price_def
      check_liquidation_risk_def example_config_def example_position_def Let_def)

section \<open>Grid levels from the configuration\<close>

text \<open>
  What \<open>calculate_grid_prices\<close> returns for bounds that satisfy the precondition of
  C6: the levels are equally spaced and strictly increasing, from the lower bound to
  the upper bound that the configuration holds when the function returns.
\<close>

lemma grid_levels_strict:
  assumes "0 < (d::real)"
  shows "sorted_wrt (<) (map (\<lambda>i. l + real i * d) [0..<n])"
  using assms by (simp add: sorted_wrt_map sorted_wrt_iff_nth_less)

lemma calculate_grid_prices_levels:
  assumes "calculate_grid_prices cfg0 mkt = (r, cfg)"
    and "grid_lower_price cfg < grid_upper_price cfg"
    and "2 \<le> grid_count cfg"
  shows "\<exists>levels. r = Inr levels \<and> int (length levels) = grid_count cfg
           \<and> sorted_wrt (<) levels
           \<and> hd levels = grid_lower_price cfg \<and> last levels = grid_upper_price cfg
           \<and> (\<forall>i. i + 1 < length levels \<longrightarrow>
                 levels ! (i + 1) - levels ! i
                   = (grid_upper_price cfg - grid_lower_price cfg) / real_of_int (grid_count cfg - 1))"
proof -
  define n where "n = nat (grid_count cfg)"
  define d where "d = (grid_upper_price cfg - grid_lower_price cfg) / real_of_int (grid_count cfg - 1)"
  define levels where "levels = map (\<lambda>i. grid_lower_price cfg + real i * d) [0..<n]"
  have cfg: "cfg = auto_set_grid_range cfg0 mkt"
    using assms(1) by (auto simp: calculate_grid_prices_def Let_def split: if_splits)
  have n2: "2 \<le> n" and nn: "int n = grid_count cfg" using assms(3) by (simp_all add: n_def)
  have r: "r = Inr levels"
    using assms(1,3) cfg by (auto simp: calculate_grid_prices_def Let_def levels_def d_def n_def)
  have dpos: "0 < d" using assms(2,3) by (simp add: d_def)
  have len: "length levels = n" by (simp add: levels_def)
  have hd: "hd levels = grid_lower_price cfg"
    using n2 by (simp add: levels_def hd_map hd_upt)
  have "real_of_int (grid_count cfg - 1) = real (n - 1)" using n2 nn by linarith
  hence "real (n - 1) * d = grid_upper_price cfg - grid_lower_price cfg"
    using n2 by (simp add: d_def)
  hence lst: "last levels = grid_upper_price cfg"
    using n2 by (simp add: levels_def last_map last_upt)
  have step: "\<forall>i. i + 1 < length levels \<longrightarrow> levels ! (i + 1) - levels ! i = d"
    by (auto simp: levels_def algebra_simps)
  show ?thesis
    using r len nn hd lst step grid_levels_strict[OF dpos, of "grid_lower_price cfg" n]
    unfolding levels_def[symmetric] d_def[symmetric] by auto
qed

lemma grid_example_at_market_100:
  "fst (calculate_grid_prices example_config (Observed 100 0.02)) = Inr [90, 95, 100, 105, 110]"
  by (simp add: calculate_grid_prices_def example_config_def Let_def upt_rec)

text \<open>
  C6. The configured bounds 90 and 110 with five levels do not give the levels
  90, 95, 100, 105, 110 when the market is elsewhere: \<open>calculate_grid_prices\<close> calls
  \<open>auto_set_grid_range\<close> first, which replaces the bounds by a range around the
  current price. At a price of 50000 and a volatility of 0.02 the levels run from
  45000 to 55000.
\<close>

theorem configured_bounds_overwritten:
  "calculate_grid_prices example_config (Observed 50000 0.02) =
     (Inr [45000, 47500, 50000, 52500, 55000],
      example_config\<lparr>grid_lower_price := 45000, grid_upper_price := 55000\<rparr>)
   \<and> grid_lower_price example_config = 90 \<and> grid_upper_price example_config = 110
   \<and> grid_count example_config = 5"
  by (simp add: calculate_grid_prices_def example_config_def Let_def upt_rec)

section \<open>Simulated order failure\<close>

text \<open>
  The claim C3 as stated fails: with \<open>order_failure_rate\<close> set to one, every order
  would have to fail, and the simulator still returns a price.
\<close>

theorem full_failure_rate_still_fills:
  "simulate_order_execution ((init example_config)\<lparr>order_failure_rate := 1\<rparr>) 100 True 30 1
     = Some 100.3"
  by (simp add: simulate_order_execution_def apply_slippage_and_spread_def init_def Let_def)

text \<open>
  C3, amended. \<open>simulate_order_execution\<close> returns a price on every call, whatever
  \<open>order_failure_rate\<close> is. Its two callers keep their branch for a missing price:
  \<open>execute_trade\<close> then returns \<open>False\<close> and \<open>close_position\<close> returns 0, and
  both leave the bot as it was.
\<close>

theorem simulator_never_fails_callers_abort:
  "simulate_order_execution b price is_buy sz u \<noteq> None
   \<and> execute_trade_filled b side ts lev sz None = (Inr False, b)
   \<and> close_position_filled b p ts None = (Inr 0, b)"
  by (simp add: simulate_order_execution_def execute_trade_filled_def close_position_filled_def)

section \<open>Opening a position\<close>

text \<open>
  What \<open>execute_trade\<close> does once \<open>trailing_stop_pct\<close> and \<open>grid_prices\<close> have
  been assigned: it rejects
  a size that is not positive, and otherwise appends one position at the fill price and
  adds the buy fee to the fee total, leaving the balance and the trades alone.
\<close>

lemma execute_trade_rejects:
  assumes "price \<noteq> 0" and "investment_amount (config b) * leverage (config b) / price \<le> 0"
  shows "execute_trade b price side ts leverage_arg u = (Inr False, b)"
  using assms by (simp add: execute_trade_def calculate_position_size_def Let_def)

lemma execute_trade_assigned:
  assumes "price \<noteq> 0" and "0 < investment_amount (config b) * leverage (config b) / price"
    and "trailing_stop_pct b = Some tsp" and "grid_prices b = Some levels"
    and "apply_slippage_and_spread b price (side = ''buy'') u \<noteq> 0"
    and "r = execute_trade b price side ts leverage_arg u"
  shows "fst r = Inr True
       \<and> length (positions (snd r)) = length (positions b) + 1
       \<and> butlast (positions (snd r)) = positions b
       \<and> pos_size (last (positions (snd r)))
           = investment_amount (config b) * leverage (config b) / price
       \<and> pos_entry_price (last (positions (snd r)))
           = apply_slippage_and_spread b price (side = ''buy'') u
       \<and> pos_side (last (positions (snd r))) = side
       \<and> total_fees (snd r) = total_fees b
           + investment_amount (config b) * leverage (config b) / price
             * apply_slippage_and_spread b price (side = ''buy'') u * fee_rate (config b)
       \<and> current_balance (snd r) = current_balance b
       \<and> trades (snd r) = trades b"
  using assms
  by (simp add: execute_trade_def execute_trade_filled_def calculate_position_size_def
      simulate_order_execution_def Let_def)

lemma execute_trade_example:
  "execute_trade assigned_bot 100 ''buy'' 0 None 1
     = (Inr True, assigned_bot\<lparr>positions := [example_position ''buy''], total_fees := 1.2036\<rparr>)"
  by (simp add: execute_trade_def execute_trade_filled_def calculate_position_size_def
      simulate_order_execution_def apply_slippage_and_spread_def example_position_def
      assigned_bot_def init_def example_config_def example_grid_def Let_def)

text \<open>
  With \<open>trailing_stop_pct\<close> assigned and \<open>grid_prices\<close> missing, the position is
  appended and the fee added before the notification raises.
\<close>

lemma execute_trade_without_grid:
  "fst (execute_trade (assigned_bot\<lparr>grid_prices := None\<rparr>) 100 ''buy'' 0 None 1)
     = Inl AttributeError
   \<and> positions (snd (execute_trade (assigned_bot\<lparr>grid_prices := None\<rparr>) 100 ''buy'' 0 None 1))
     = [example_position ''buy'']
   \<and> total_fees (snd (execute_trade (assigned_bot\<lparr>grid_prices := None\<rparr>) 100 ''buy'' 0 None 1))
     = 1.2036"
  by (simp add: execute_trade_def execute_trade_filled_def calculate_position_size_def
      simulate_order_execution_def apply_slippage_and_spread_def example_position_def
      assigned_bot_def init_def example_config_def example_grid_def Let_def)

lemma execute_trade_init_raises:
  assumes "price \<noteq> 0" and "0 < investment_amount cfg * leverage cfg / price"
  shows "execute_trade (init cfg) price side ts leverage_arg u = (Inl AttributeError, init cfg)"
  using assms
  by (simp add: execute_trade_def execute_trade_filled_def calculate_position_size_def
      simulate_order_execution_def init_def Let_def)

text \<open>
  C4. On a bot as the constructor leaves it, \<open>execute_trade\<close> with a positive size
  and a fill raises \<open>AttributeError\<close> while it builds the position: no position is
  appended and no fee is added.
\<close>

theorem execute_trade_unassigned:
  "execute_trade (init example_config) 100 ''buy'' 0 None 1
     = (Inl AttributeError, init example_config)"
  by (simp add: execute_trade_def execute_trade_filled_def calculate_position_size_def
      simulate_order_execution_def init_def example_config_def Let_def)

section \<open>Closing a position\<close>

text \<open>
  C1. A call of \<open>close_position\<close> on a position with a non-zero entry value never
  completes and never fails cleanly: it books the profit on the balance, appends the
  trade, and raises \<open>NameError\<close> before it returns, so the statement of the caller
  that removes the position is not reached. The position is then both open and in the
  trade history.
\<close>

theorem close_position_partial:
  assumes "pos_entry_price p * pos_size p \<noteq> 0"
    and "r = close_position b p price ts u"
  shows "fst r = Inl NameError
       \<and> positions (snd r) = positions b
       \<and> length (trades (snd r)) = length (trades b) + 1
       \<and> butlast (trades (snd r)) = trades b
       \<and> tr_size (last (trades (snd r))) = pos_size p
       \<and> current_balance (snd r)
           = current_balance b + (tr_pnl (last (trades (snd r))) - tr_fee (last (trades (snd r))))"
  using assms
  by (simp add: close_position_def close_position_filled_def simulate_order_execution_def Let_def)

theorem close_position_partial_witness:
  "pos_entry_price (example_position ''buy'') * pos_size (example_position ''buy'') \<noteq> 0
   \<and> fst (close_position (assigned_bot\<lparr>positions := [example_position ''buy'']\<rparr>)
            (example_position ''buy'') 110 5 1) = Inl NameError
   \<and> positions (snd (close_position (assigned_bot\<lparr>positions := [example_position ''buy'']\<rparr>)
            (example_position ''buy'') 110 5 1)) = [example_position ''buy'']
   \<and> length (trades (snd (close_position (assigned_bot\<lparr>positions := [example_position ''buy'']\<rparr>)
            (example_position ''buy'') 110 5 1))) = 1"
  using close_position_partial [of "example_position ''buy''" _
      "assigned_bot\<lparr>positions := [example_position ''buy'']\<rparr>" 110 5 1, OF _ refl]
  by (simp add: example_position_def assigned_bot_def init_def)

section \<open>The balance equation\<close>

text \<open>
  The claim C2 as stated fails: after one open the buy fee of 1.2036 is in
  \<open>total_fees\<close> and the balance is still the start balance.
\<close>

theorem buy_fee_not_deducted:
  "balance_less_all_fees assigned_bot
   \<and> \<not> balance_less_all_fees (foldl apply_ledger_op assigned_bot [Open 100 ''buy'' 0 None 1])"
  by (simp add: balance_less_all_fees_def realized_pnl_def assigned_bot_def init_def
      example_config_def example_grid_def execute_trade_def execute_trade_filled_def
      calculate_position_size_def simulate_order_execution_def apply_slippage_and_spread_def
      Let_def)

text \<open>Each ledger call keeps the equation with the booked fees.\<close>

lemma execute_trade_booked:
  "balance_less_booked_fees b \<Longrightarrow> balance_less_booked_fees (snd (execute_trade b price side ts la u))"
  by (auto simp: balance_less_booked_fees_def realized_pnl_def sell_fees_def execute_trade_def
      execute_trade_filled_def Let_def split: sum.splits option.splits)

lemma close_position_booked:
  "balance_less_booked_fees b \<Longrightarrow> balance_less_booked_fees (snd (close_position b p price ts u))"
  by (auto simp: balance_less_booked_fees_def realized_pnl_def sell_fees_def close_position_def
      close_position_filled_def simulate_order_execution_def Let_def)

lemma apply_funding_fees_booked:
  "balance_less_booked_fees b \<Longrightarrow> balance_less_booked_fees (apply_funding_fees b ts)"
  by (auto simp: balance_less_booked_fees_def realized_pnl_def sell_fees_def apply_funding_fees_def
      Let_def)

lemma apply_ledger_op_booked:
  "balance_less_booked_fees b \<Longrightarrow> balance_less_booked_fees (apply_ledger_op b x)"
  by (cases x)
     (simp_all add: execute_trade_booked close_position_booked apply_funding_fees_booked,
      simp add: balance_less_booked_fees_def realized_pnl_def sell_fees_def)

text \<open>
  C2, amended. After any finite sequence of opens, closes, funding applications and
  removals, whether the calls return or raise, the balance equals the start balance
  plus the realized profit of the recorded trades, minus their sell fees, minus the
  funding fees. Buy fees are added to \<open>total_fees\<close> and never taken from the balance.
\<close>

theorem balance_after_ledger_ops:
  "balance_less_booked_fees b \<Longrightarrow> balance_less_booked_fees (foldl apply_ledger_op b ops)"
  by (induction ops arbitrary: b) (simp_all add: apply_ledger_op_booked)

theorem balance_after_ledger_ops_witness:
  "balance_less_booked_fees assigned_bot
   \<and> balance_less_booked_fees (foldl apply_ledger_op assigned_bot
        [Open 100 ''buy'' 0 None 1, Funding 1, Close (example_position ''buy'') 110 2 1])
   \<and> current_balance (foldl apply_ledger_op assigned_bot
        [Open 100 ''buy'' 0 None 1, Funding 1, Close (example_position ''buy'') 110 2 1])
       = 457754153 / 50000"
  using balance_after_ledger_ops [of assigned_bot
      "[Open 100 ''buy'' 0 None 1, Funding 1, Close (example_position ''buy'') 110 2 1]"]
  by (simp add: balance_less_booked_fees_def realized_pnl_def sell_fees_def example_position_def
      apply_funding_fees_def execute_trade_def execute_trade_filled_def calculate_position_size_def
      simulate_order_execution_def apply_slippage_and_spread_def close_position_def
      close_position_filled_def
      assigned_bot_def init_def example_config_def example_grid_def Let_def)

section \<open>One position per grid level in the backtest\<close>

text \<open>
  A buy fills above its level whenever slippage and spread do not cancel, so the entry
  price of the position is not the level.
\<close>

lemma fill_differs_from_level:
  assumes "grid_price \<noteq> 0" and "slippage_rate b * u + spread_rate b \<noteq> 0"
  shows "apply_slippage_and_spread b grid_price True u \<noteq> grid_price"
proof -
  have "apply_slippage_and_spread b grid_price True u - grid_price
          = grid_price * (slippage_rate b * u + spread_rate b)"
    by (simp add: apply_slippage_and_spread_def Let_def algebra_simps)
  then show ?thesis using assms by auto
qed

text \<open>
  C5. On a bot with \<open>trailing_stop_pct\<close> assigned, two bars that close at 100 open
  two positions from each of the levels 100, 105 and 110. The guard of the buy compares
  the entry price of the open positions with the level, and the entry price is the fill
  (100.3 for the level 100), so the guard never finds the position it opened.
\<close>

theorem backtest_opens_twice_per_level:
  "fst (backtest_bars (\<lambda>k. 1) 0 assigned_bot [(0, 100, 0), (1, 100, 1)]) = None
   \<and> map (\<lambda>p. (pos_side p, pos_entry_price p, pos_timestamp p))
       (positions (snd (snd (backtest_bars (\<lambda>k. 1) 0 assigned_bot [(0, 100, 0)]))))
     = [(''buy'', 100.3, 0), (''buy'', 105.315, 0), (''buy'', 110.33, 0)]
   \<and> map (\<lambda>p. (pos_side p, pos_entry_price p, pos_timestamp p))
       (positions (snd (snd (backtest_bars (\<lambda>k. 1) 0 assigned_bot [(0, 100, 0), (1, 100, 1)]))))
     = [(''buy'', 100.3, 0), (''buy'', 105.315, 0), (''buy'', 110.33, 0),
        (''buy'', 100.3, 1), (''buy'', 105.315, 1), (''buy'', 110.33, 1)]"
  by (simp add: backtest_bar_def apply_funding_fees_def remove_all_def check_liquidation_risk_def
      position_pnl_def execute_trade_def execute_trade_filled_def calculate_position_size_def
      simulate_order_execution_def apply_slippage_and_spread_def close_position_def
      close_position_filled_def
      assigned_bot_def init_def example_config_def example_grid_def Let_def)

section \<open>The live scan of the grid levels\<close>

text \<open>
  What holds of the scan at every bot. Levels that do not act are passed over and the
  bot is not touched; a stationary price makes no level act; and the first level that
  acts is the only one that does, by the one call that its branch makes.
\<close>

lemma live_grid_scan_skip:
  "\<forall>h \<in> set pre. \<not> level_acts b lp price h \<Longrightarrow>
   live_grid_scan b lp price ts u (pre @ rest) = live_grid_scan b lp price ts u rest"
proof (induction pre)
  case Nil
  then show ?case by simp
next
  case (Cons h pre)
  then have "\<not> level_acts b lp price h" by simp
  moreover have "\<not> has_long b \<Longrightarrow> find (\<lambda>p. pos_side p = ''long'') (positions b) = None"
    by (simp add: has_long_def find_None_iff list_ex_iff)
  moreover have "crossed_down lp h price \<Longrightarrow> \<not> crossed_up lp h price"
    by (auto simp: crossed_up_def crossed_down_def)
  ultimately show ?case using Cons
    by (auto simp: level_acts_def split: if_splits)
qed

lemma live_grid_scan_none:
  "\<forall>h \<in> set gs. \<not> level_acts b lp price h \<Longrightarrow> live_grid_scan b lp price ts u gs = (Inr False, b)"
  using live_grid_scan_skip [of gs b lp price ts u "[]"] by simp

lemma stationary_no_level: "\<not> level_acts b p p h"
  by (auto simp: level_acts_def crossed_up_def crossed_down_def)

lemma live_grid_scan_stationary: "live_grid_scan b price price ts u gs = (Inr False, b)"
  by (rule live_grid_scan_none) (simp add: stationary_no_level)

lemma live_grid_scan_first_level:
  "((\<forall>h \<in> set pre. \<not> level_acts b lp price h) \<and> crossed_up lp g price \<and> \<not> has_long b \<longrightarrow>
        live_grid_scan b lp price ts u (pre @ g # post)
          = (case execute_trade b g ''buy'' ts None u of
               (Inl e, b') \<Rightarrow> (Inl e, b') | (Inr ok, b') \<Rightarrow> (Inr True, b')))
   \<and> ((\<forall>h \<in> set pre. \<not> level_acts b lp price h) \<and> crossed_down lp g price \<and> \<not> has_short b
        \<and> find (\<lambda>p. pos_side p = ''long'') (positions b) = Some p \<longrightarrow>
        live_grid_scan b lp price ts u (pre @ g # post)
          = (case close_position b p g ts u of
               (Inl e, b') \<Rightarrow> (Inl e, b')
             | (Inr pnl, b') \<Rightarrow> (Inr True, b'\<lparr>positions := remove1 p (positions b')\<rparr>)))"
proof -
  have "crossed_down lp g price \<Longrightarrow> \<not> crossed_up lp g price"
    by (auto simp: crossed_up_def crossed_down_def)
  then show ?thesis
    by (auto simp: live_grid_scan_skip)
qed

text \<open>
  C7. On a bot with \<open>trailing_stop_pct\<close> assigned, the prices 99, 101, 99 cross the
  level 100 upwards and then downwards. The upward cross opens a position; the downward
  cross, with that position open, closes nothing: the position is still open after the
  third cycle and no trade is recorded. The close looks for a position whose side is
  \<open>long\<close>, and the position that the upward cross opened has the side \<open>buy\<close>.
\<close>

theorem live_loop_down_cross_closes_nothing:
  "crossed_up 99 100 101 \<and> crossed_down 101 100 99
   \<and> map (\<lambda>p. (pos_side p, pos_entry_price p, pos_timestamp p))
       (positions (snd (live_trading_loop assigned_bot [(Some 99, 0, 1), (Some 101, 1, 1)])))
     = [(''buy'', 100.3, 1)]
   \<and> fst (live_trading_loop assigned_bot [(Some 99, 0, 1), (Some 101, 1, 1), (Some 99, 2, 1)])
     = Some 99
   \<and> map (\<lambda>p. (pos_side p, pos_entry_price p, pos_timestamp p))
       (positions (snd (live_trading_loop assigned_bot
          [(Some 99, 0, 1), (Some 101, 1, 1), (Some 99, 2, 1)])))
     = [(''buy'', 100.3, 1)]
   \<and> trades (snd (live_trading_loop assigned_bot
          [(Some 99, 0, 1), (Some 101, 1, 1), (Some 99, 2, 1)])) = []"
  by (simp add: live_trading_loop_def live_cycle_def crossed_up_def crossed_down_def
      has_long_def has_short_def execute_trade_def execute_trade_filled_def
      calculate_position_size_def simulate_order_execution_def apply_slippage_and_spread_def
      assigned_bot_def init_def example_config_def example_grid_def Let_def)

section \<open>One long position in the live loop\<close>

text \<open>
  C10. On a bot with \<open>trailing_stop_pct\<close> assigned, the prices 99, 101, 106 cross the
  level 100 and then the level 105 upwards, and the loop opens a position at each: two
  positions are open. The guard looks for a position whose side is \<open>long\<close>, and the
  position it opened has the side \<open>buy\<close>, the argument passed to \<open>execute_trade\<close>.
\<close>

theorem live_loop_opens_second_position:
  "fst (live_trading_loop assigned_bot [(Some 99, 0, 1), (Some 101, 1, 1), (Some 106, 2, 1)])
     = Some 106
   \<and> map (\<lambda>p. (pos_side p, pos_entry_price p, pos_timestamp p))
       (positions (snd (live_trading_loop assigned_bot
          [(Some 99, 0, 1), (Some 101, 1, 1), (Some 106, 2, 1)])))
     = [(''buy'', 100.3, 1), (''buy'', 105.315, 2)]
   \<and> \<not> has_long (snd (live_trading_loop assigned_bot
          [(Some 99, 0, 1), (Some 101, 1, 1), (Some 106, 2, 1)]))"
  by (simp add: live_trading_loop_def live_cycle_def crossed_up_def crossed_down_def
      has_long_def has_short_def execute_trade_def execute_trade_filled_def calculate_position_size_def
      simulate_order_execution_def apply_slippage_and_spread_def close_position_def
      close_position_filled_def
      assigned_bot_def init_def example_config_def example_grid_def Let_def)

end
